theory Spec2Isabelle
  imports Main
begin

section \<open>Errors: utils/AppError.js and the errors thrown by the libraries\<close>

text \<open>
  An error value is what reaches \<open>next(err)\<close>. \<open>AppError message statusCode\<close> is the
  repository's own class; its \<open>status\<close> and \<open>isOperational\<close> fields are functions of
  the status code and are computed below. The other constructors are the errors of the
  libraries, told apart by the error handler through \<open>err.name\<close>.
\<close>

datatype error =
    AppError string nat
  | JsonWebTokenError string
  | TokenExpiredError string
  | CastError string string
  | ValidationError "string list"
  | MongoServerError nat "string list"
  | TypeError string

fun leading_digit :: "nat \<Rightarrow> nat" where
  "leading_digit n = (if n < 10 then n else leading_digit (n div 10))"

declare leading_digit.simps [simp del]

text \<open>\<open>`${statusCode}`.startsWith('4') ? 'fail' : 'error'\<close>\<close>

definition app_status :: "nat \<Rightarrow> string" where
  "app_status statusCode = (if leading_digit statusCode = 4 then ''fail'' else ''error'')"

record error_response =
  res_code :: nat
  res_status :: string
  res_message :: string

fun join_with :: "string \<Rightarrow> string list \<Rightarrow> string" where
  "join_with sep [] = []"
| "join_with sep [x] = x"
| "join_with sep (x # y # ys) = x @ sep @ join_with sep (y # ys)"

text \<open>middleware/errorHandler.js\<close>

definition handleDuplicateKeyError :: "string list \<Rightarrow> error" where
  "handleDuplicateKeyError keyValue =
     (let field = (case keyValue of [] \<Rightarrow> ''undefined'' | k # _ \<Rightarrow> k)
      in AppError (field @ '' already exists'') 400)"

definition handleValidationError :: "string list \<Rightarrow> error" where
  "handleValidationError errors = AppError (''Invalid input data: '' @ join_with ''. '' errors) 400"

definition handleCastError :: "string \<Rightarrow> string \<Rightarrow> error" where
  "handleCastError path v = AppError (''Invalid '' @ path @ '': '' @ v) 400"

definition handleJWTError :: error where
  "handleJWTError = AppError ''Invalid token. Please log in again.'' 401"

definition handleJWTExpiredError :: error where
  "handleJWTExpiredError = AppError ''Your token has expired. Please log in again.'' 401"

text \<open>
  \<open>err.statusCode || 500\<close>, \<open>err.status || 'error'\<close> and \<open>err.message\<close>. The
  libraries word the messages of their own errors; for Mongoose and the MongoDB driver
  they are abbreviated here, and nothing below depends on their wording.
\<close>

fun err_statusCode :: "error \<Rightarrow> nat" where
  "err_statusCode (AppError m c) = (if c = 0 then 500 else c)"
| "err_statusCode _ = 500"

fun err_status :: "error \<Rightarrow> string" where
  "err_status (AppError m c) = app_status c"
| "err_status _ = ''error''"

fun err_message :: "error \<Rightarrow> string" where
  "err_message (AppError m c) = m"
| "err_message (JsonWebTokenError m) = m"
| "err_message (TokenExpiredError m) = m"
| "err_message (CastError path v) = ''Cast to ObjectId failed for value '' @ v @ '' at path '' @ path"
| "err_message (ValidationError errors) = ''Validation failed: '' @ join_with '', '' errors"
| "err_message (MongoServerError c keyValue) = ''MongoServerError''"
| "err_message (TypeError m) = m"

definition sendErrorDev :: "error \<Rightarrow> error_response" where
  "sendErrorDev err =
     \<lparr>res_code = err_statusCode err, res_status = err_status err, res_message = err_message err\<rparr>"

text \<open>Only an \<open>AppError\<close> has \<open>isOperational\<close> set.\<close>

fun sendErrorProd :: "error \<Rightarrow> error_response" where
  "sendErrorProd (AppError m c) =
     \<lparr>res_code = err_statusCode (AppError m c), res_status = app_status c, res_message = m\<rparr>"
| "sendErrorProd _ =
     \<lparr>res_code = 500, res_status = ''error'', res_message = ''Something went wrong!''\<rparr>"

fun errorHandler :: "bool \<Rightarrow> error \<Rightarrow> error_response" where
  "errorHandler True err = sendErrorDev err"
| "errorHandler False (MongoServerError c keyValue) =
     sendErrorProd (if c = 11000 then handleDuplicateKeyError keyValue else MongoServerError c keyValue)"
| "errorHandler False (ValidationError errors) = sendErrorProd (handleValidationError errors)"
| "errorHandler False (CastError path v) = sendErrorProd (handleCastError path v)"
| "errorHandler False (JsonWebTokenError m) = sendErrorProd handleJWTError"
| "errorHandler False (TokenExpiredError m) = sendErrorProd handleJWTExpiredError"
| "errorHandler False err = sendErrorProd err"

section \<open>Data model: models/User.js, models/Product.js\<close>

type_synonym oid = string

text \<open>
  A user document as a query returns it when the password is not selected
  (\<open>select: false\<close> in the schema, \<open>.select('-password')\<close> in the middleware), and the
  stored document, which extends it with the password field.
\<close>

record user_public =
  u_id :: oid
  u_name :: string
  u_email :: string
  u_role :: string
  u_isActive :: bool
  u_lastLogin :: "nat option"
  u_createdAt :: nat
  u_updatedAt :: nat

record user = user_public +
  u_password :: string

definition select_minus_password :: "user \<Rightarrow> user_public" where
  "select_minus_password u = user_public.truncate u"

record product =
  p_id :: oid
  p_name :: string
  p_description :: string
  p_amount :: "int option"
  p_currency :: string
  p_category :: string
  p_stock :: int
  p_sku :: string
  p_tags :: "string list"
  p_images :: "string list"
  p_createdBy :: oid
  p_isActive :: bool
  p_createdAt :: nat
  p_updatedAt :: nat

record store =
  users :: "user list"
  products :: "product list"

record jwt_payload =
  jwt_id :: string
  jwt_role :: string

text \<open>
  The collaborators the code calls and the process configuration, passed explicitly:
  \<open>jwt.verify(token, config.jwt.secret)\<close> and \<open>jwt.sign\<close> of jsonwebtoken at the time of
  the call, \<open>bcrypt.genSalt(12)\<close>, \<open>bcrypt.hash\<close> and \<open>bcrypt.compare\<close>, Mongoose's cast
  of a string to an ObjectId, the identifier the driver gives a new document, the regular
  expression of the email path, the validators of the product schema, whether Mongoose
  takes a price sub-document replaced by an equal one for a modification,
  \<open>Date.now()\<close> and \<open>NODE_ENV\<close>.
\<close>

record env =
  jwt_verify :: "string \<Rightarrow> error + jwt_payload"
  jwt_sign :: "jwt_payload \<Rightarrow> string"
  bcrypt_genSalt :: string
  bcrypt_hash :: "string \<Rightarrow> string \<Rightarrow> string"
  bcrypt_compare :: "string \<Rightarrow> string \<Rightarrow> bool"
  castObjectId :: "string \<Rightarrow> oid option"
  newObjectId :: oid
  emailMatch :: "string \<Rightarrow> bool"
  productErrors :: "product \<Rightarrow> string list"
  equalPriceModifies :: bool
  date_now :: nat
  isDevelopment :: bool
  isProduction :: bool

record 'b request =
  authorization :: "string option"
  cookies :: "(string \<times> string) list option"
  req_user :: "user_public option"
  params_id :: string
  body :: 'b

section \<open>Queries\<close>

fun find_user :: "(user \<Rightarrow> bool) \<Rightarrow> user list \<Rightarrow> user option" where
  "find_user P [] = None"
| "find_user P (u # us) = (if P u then Some u else find_user P us)"

fun toLowerChar :: "char \<Rightarrow> char" where
  "toLowerChar c =
     (let n = (of_char c :: nat)
      in if 65 \<le> n \<and> n \<le> 90 then char_of (n + 32) else c)"

definition toLowerCase :: "string \<Rightarrow> string" where
  "toLowerCase s = map toLowerChar s"

text \<open>\<open>s.trim()\<close>, for the white space of ASCII\<close>

definition is_space :: "char \<Rightarrow> bool" where
  "is_space c = ((of_char c :: nat) \<in> {9, 10, 11, 12, 13, 32})"

definition trim :: "string \<Rightarrow> string" where
  "trim s = rev (dropWhile is_space (rev (dropWhile is_space s)))"

text \<open>
  The setters that the user schema declares on the email path (\<open>lowercase: true\<close>,
  \<open>trim: true\<close>). Mongoose applies them when the path is set on a document and when a
  value for the path is cast in the filter of a query.
\<close>

definition email_setters :: "string \<Rightarrow> string" where
  "email_setters m = trim (toLowerCase m)"

text \<open>
  \<open>User.findByEmail(email)\<close>: \<open>findOne({ email: email.toLowerCase() })\<close>, the filter
  cast by the schema.
\<close>

definition findByEmail :: "store \<Rightarrow> string \<Rightarrow> user option" where
  "findByEmail db email =
     find_user (\<lambda>u. u_email u = email_setters (toLowerCase email)) (users db)"

text \<open>\<open>User.findById(id)\<close>: the cast of the identifier throws a CastError when it fails.\<close>

definition User_findById :: "env \<Rightarrow> store \<Rightarrow> string \<Rightarrow> error + user option" where
  "User_findById e db i =
     (case castObjectId e i of
        None \<Rightarrow> Inl (CastError ''_id'' i)
      | Some k \<Rightarrow> Inr (find_user (\<lambda>u. u_id u = k) (users db)))"

section \<open>middleware/auth.js\<close>

text \<open>\<open>s.split(' ')\<close>\<close>

fun split_space :: "string \<Rightarrow> string list" where
  "split_space [] = [[]]"
| "split_space (c # cs) =
     (if c = CHR '' '' then [] # split_space cs
      else (case split_space cs of [] \<Rightarrow> [[c]] | w # ws \<Rightarrow> (c # w) # ws))"

definition startsWith :: "string \<Rightarrow> string \<Rightarrow> bool" where
  "startsWith s p = (take (length p) s = p)"

text \<open>\<open>xs[1]\<close>, \<open>undefined\<close> when the array is shorter\<close>

fun second :: "'a list \<Rightarrow> 'a option" where
  "second (x # y # ys) = Some y"
| "second _ = None"

text \<open>
  The value of the variable \<open>token\<close> after the two branches that \<open>protect\<close> and
  \<open>optionalAuth\<close> both start with; \<open>None\<close> is \<open>undefined\<close>.
\<close>

definition cookie_token :: "'b request \<Rightarrow> string option" where
  "cookie_token req =
     (case cookies req of
        None \<Rightarrow> None
      | Some cs \<Rightarrow> (case map_of cs ''token'' of
                     None \<Rightarrow> None
                   | Some t \<Rightarrow> if t = [] then None else Some t))"

definition bearer_header :: "'b request \<Rightarrow> string option" where
  "bearer_header req =
     (case authorization req of
        None \<Rightarrow> None
      | Some h \<Rightarrow> if h \<noteq> [] \<and> startsWith h ''Bearer'' then Some h else None)"

definition token_of :: "'b request \<Rightarrow> string option" where
  "token_of req =
     (case bearer_header req of
        Some h \<Rightarrow> second (split_space h)
      | None \<Rightarrow> cookie_token req)"

definition not_authorized :: error where
  "not_authorized = AppError ''Not authorized to access this route'' 401"

text \<open>
  \<open>protect\<close>: \<open>Inl err\<close> is \<open>next(err)\<close>, \<open>Inr req'\<close> is \<open>next()\<close> with the request as
  the middleware leaves it. Whatever is thrown inside the \<open>try\<close> is caught and replaced.
\<close>

definition protect :: "env \<Rightarrow> store \<Rightarrow> 'b request \<Rightarrow> error + 'b request" where
  "protect e db req =
     (case token_of req of
        None \<Rightarrow> Inl not_authorized
      | Some token \<Rightarrow>
          if token = [] then Inl not_authorized
          else (case jwt_verify e token of
                  Inl thrown \<Rightarrow> Inl not_authorized
                | Inr decoded \<Rightarrow>
                    (case User_findById e db (jwt_id decoded) of
                       Inl thrown \<Rightarrow> Inl not_authorized
                     | Inr None \<Rightarrow> Inl (AppError ''User no longer exists'' 401)
                     | Inr (Some u) \<Rightarrow>
                         if \<not> u_isActive u then Inl (AppError ''User account is inactive'' 401)
                         else Inr (req\<lparr>req_user := Some (select_minus_password u)\<rparr>))))"

text \<open>
  \<open>authorize(...roles)\<close>: reading \<open>req.user.role\<close> when no user is attached throws a
  TypeError.
\<close>

definition authorize :: "string list \<Rightarrow> 'b request \<Rightarrow> error + 'b request" where
  "authorize roles req =
     (case req_user req of
        None \<Rightarrow> Inl (TypeError ''Cannot read properties of undefined (reading 'role')'')
      | Some u \<Rightarrow>
          if u_role u \<notin> set roles
          then Inl (AppError (''User role '' @ [CHR 0x27] @ u_role u @ [CHR 0x27]
                               @ '' is not authorized to access this route'') 403)
          else Inr req)"

definition optionalAuth :: "env \<Rightarrow> store \<Rightarrow> 'b request \<Rightarrow> error + 'b request" where
  "optionalAuth e db req =
     (case token_of req of
        None \<Rightarrow> Inr req
      | Some token \<Rightarrow>
          if token = [] then Inr req
          else (case jwt_verify e token of
                  Inl thrown \<Rightarrow> Inr req
                | Inr decoded \<Rightarrow>
                    (case User_findById e db (jwt_id decoded) of
                       Inl thrown \<Rightarrow> Inr req
                     | Inr found \<Rightarrow>
                         Inr (req\<lparr>req_user := map_option select_minus_password found\<rparr>))))"

section \<open>The request pipeline\<close>

text \<open>
  A route is a fixed list of middlewares followed by its handler (routes/authRoutes.js,
  routes/productRoutes.js). Express calls the next stage on \<open>next()\<close> and skips to the
  error handler on \<open>next(err)\<close>.
\<close>

datatype json =
    JNull
  | JBool bool
  | JNum int
  | JStr string
  | JArr "json list"
  | JObj "(string \<times> json) list"

record cookie =
  c_name :: string
  c_value :: string
  c_expires :: nat
  c_httpOnly :: bool
  c_secure :: bool
  c_sameSite :: "string option"

record response =
  status_code :: nat
  set_cookies :: "cookie list"
  json_body :: json

type_synonym 'b middleware = "store \<Rightarrow> 'b request \<Rightarrow> error + 'b request"

type_synonym 'b handler = "store \<Rightarrow> 'b request \<Rightarrow> store \<times> (error + response)"

fun run_chain :: "'b middleware list \<Rightarrow> 'b handler \<Rightarrow> 'b handler" where
  "run_chain [] h db req = h db req"
| "run_chain (m # ms) h db req =
     (case m db req of
        Inl err \<Rightarrow> (db, Inl err)
      | Inr req' \<Rightarrow> run_chain ms h db req')"

section \<open>Serialisation of a user document\<close>

text \<open>
  \<open>toObject()\<close> with the schema's virtuals; the password field is there only when the
  query selected it. \<open>toJSON\<close> deletes it.
\<close>

definition fullProfile :: "user_public \<Rightarrow> json" where
  "fullProfile u =
     JObj [(''id'', JStr (u_id u)), (''name'', JStr (u_name u)), (''email'', JStr (u_email u)),
           (''role'', JStr (u_role u)), (''createdAt'', JNum (int (u_createdAt u)))]"

definition toObject :: "user_public \<Rightarrow> string option \<Rightarrow> (string \<times> json) list" where
  "toObject u pw =
     [(''_id'', JStr (u_id u)), (''name'', JStr (u_name u)), (''email'', JStr (u_email u))]
     @ (case pw of None \<Rightarrow> [] | Some h \<Rightarrow> [(''password'', JStr h)])
     @ [(''role'', JStr (u_role u)), (''isActive'', JBool (u_isActive u))]
     @ (case u_lastLogin u of None \<Rightarrow> [] | Some t \<Rightarrow> [(''lastLogin'', JNum (int t))])
     @ [(''createdAt'', JNum (int (u_createdAt u))), (''updatedAt'', JNum (int (u_updatedAt u))),
        (''fullProfile'', fullProfile u), (''id'', JStr (u_id u))]"

definition delete_key :: "string \<Rightarrow> (string \<times> json) list \<Rightarrow> (string \<times> json) list" where
  "delete_key k kvs = filter (\<lambda>kv. fst kv \<noteq> k) kvs"

definition toJSON :: "user_public \<Rightarrow> string option \<Rightarrow> json" where
  "toJSON u pw = JObj (delete_key ''password'' (toObject u pw))"

text \<open>Whether a key occurs anywhere in a JSON value.\<close>

fun has_key :: "string \<Rightarrow> json \<Rightarrow> bool" where
  "has_key k (JObj kvs) = (\<exists>kv \<in> set kvs. fst kv = k \<or> has_key k (snd kv))"
| "has_key k (JArr vs) = (\<exists>v \<in> set vs. has_key k v)"
| "has_key k _ = False"

section \<open>controllers/authController.js\<close>

text \<open>
  The handlers, as functions of the store and the request. The express-validator rules
  that routes/authRoutes.js puts in front of \<open>register\<close> and \<open>login\<close> are not
  modelled: the statements below are about the handlers, for every body.
\<close>

record auth_body =
  b_name :: "string option"
  b_email :: "string option"
  b_password :: "string option"

text \<open>
  The validators of the user schema, in the order of its paths; a missing or empty
  string fails \<open>required\<close>. The regular expression of the email path is \<open>emailMatch\<close>.
\<close>

definition name_errors :: "string option \<Rightarrow> string list" where
  "name_errors n =
     (case n of
        None \<Rightarrow> [''Please provide a name'']
      | Some v \<Rightarrow>
          if v = [] then [''Please provide a name'']
          else if length v < 2 then [''Name must be at least 2 characters'']
          else if 50 < length v then [''Name cannot exceed 50 characters'']
          else [])"

definition email_errors :: "env \<Rightarrow> string option \<Rightarrow> string list" where
  "email_errors e m =
     (case m of
        None \<Rightarrow> [''Please provide an email'']
      | Some v \<Rightarrow>
          if v = [] then [''Please provide an email'']
          else if \<not> emailMatch e v then [''Please provide a valid email'']
          else [])"

definition password_errors :: "string option \<Rightarrow> string list" where
  "password_errors p =
     (case p of
        None \<Rightarrow> [''Please provide a password'']
      | Some v \<Rightarrow>
          if v = [] then [''Please provide a password'']
          else if length v < 6 then [''Password must be at least 6 characters'']
          else [])"

text \<open>
  \<open>User.create({ name, email, password })\<close>: the setters of the schema (\<open>trim\<close>,
  \<open>lowercase\<close>), its validators, the pre-save hook that hashes the password of a new
  document, then the insertion, which the unique indexes can refuse with error 11000.
\<close>

definition User_create :: "env \<Rightarrow> store \<Rightarrow> auth_body \<Rightarrow> error + store \<times> user" where
  "User_create e db b =
     (let name = map_option trim (b_name b);
          email = map_option email_setters (b_email b);
          errors = name_errors name @ email_errors e email @ password_errors (b_password b)
      in if errors \<noteq> [] then Inl (ValidationError errors)
         else (let u = \<lparr>u_id = newObjectId e, u_name = the name, u_email = the email,
                         u_role = ''user'', u_isActive = True, u_lastLogin = None,
                         u_createdAt = date_now e, u_updatedAt = date_now e,
                         u_password = bcrypt_hash e (the (b_password b)) (bcrypt_genSalt e)\<rparr>
               in if \<exists>x \<in> set (users db). u_id x = u_id u then Inl (MongoServerError 11000 [''_id''])
                  else if \<exists>x \<in> set (users db). u_email x = u_email u
                  then Inl (MongoServerError 11000 [''email''])
                  else Inr (db\<lparr>users := users db @ [u]\<rparr>, u)))"

text \<open>\<open>user.generateToken()\<close>\<close>

definition generateToken :: "env \<Rightarrow> user \<Rightarrow> string" where
  "generateToken e u = jwt_sign e \<lparr>jwt_id = u_id u, jwt_role = u_role u\<rparr>"

definition token_cookie :: "env \<Rightarrow> string \<Rightarrow> cookie" where
  "token_cookie e token =
     \<lparr>c_name = ''token'', c_value = token, c_expires = date_now e + 7 * 24 * 60 * 60 * 1000,
      c_httpOnly = True, c_secure = isProduction e, c_sameSite = Some ''strict''\<rparr>"

definition auth_json :: "user \<Rightarrow> string \<Rightarrow> json" where
  "auth_json u token =
     JObj [(''status'', JStr ''success''),
           (''data'', JObj [(''user'', JObj [(''id'', JStr (u_id u)), (''name'', JStr (u_name u)),
                                           (''email'', JStr (u_email u)), (''role'', JStr (u_role u))]),
                          (''token'', JStr token)])]"

definition register :: "env \<Rightarrow> auth_body handler" where
  "register e db req =
     (case b_email (body req) of
        None \<Rightarrow> (db, Inl (TypeError ''Cannot read properties of undefined (reading 'toLowerCase')''))
      | Some email \<Rightarrow>
          (case findByEmail db email of
             Some existingUser \<Rightarrow> (db, Inl (AppError ''User already exists with this email'' 400))
           | None \<Rightarrow>
               (case User_create e db (body req) of
                  Inl thrown \<Rightarrow> (db, Inl thrown)
                | Inr (db', u) \<Rightarrow>
                    (let token = generateToken e u
                     in (db', Inr \<lparr>status_code = 201, set_cookies = [token_cookie e token],
                                   json_body = auth_json u token\<rparr>)))))"

text \<open>
  \<open>user.save({ validateBeforeSave: false })\<close> after \<open>lastLogin\<close> was set: the pre-save hook
  leaves the unmodified password alone, the timestamps plugin sets \<open>updatedAt\<close>.
\<close>

definition save_user :: "store \<Rightarrow> user \<Rightarrow> store" where
  "save_user db u = db\<lparr>users := map (\<lambda>x. if u_id x = u_id u then u else x) (users db)\<rparr>"

definition login :: "env \<Rightarrow> auth_body handler" where
  "login e db req =
     (case (b_email (body req), b_password (body req)) of
        (Some email, Some password) \<Rightarrow>
          if email = [] \<or> password = []
          then (db, Inl (AppError ''Please provide email and password'' 400))
          else (case findByEmail db email of
                  None \<Rightarrow> (db, Inl (AppError ''Invalid credentials'' 401))
                | Some u \<Rightarrow>
                    if \<not> u_isActive u then (db, Inl (AppError ''Account is inactive'' 401))
                    else if \<not> bcrypt_compare e password (u_password u)
                    then (db, Inl (AppError ''Invalid credentials'' 401))
                    else (let u' = u\<lparr>u_lastLogin := Some (date_now e), u_updatedAt := date_now e\<rparr>;
                              token = generateToken e u'
                          in (save_user db u',
                              Inr \<lparr>status_code = 200, set_cookies = [token_cookie e token],
                                   json_body = auth_json u' token\<rparr>)))
      | _ \<Rightarrow> (db, Inl (AppError ''Please provide email and password'' 400)))"

text \<open>
  \<open>getMe\<close>: \<open>User.findById(req.user.id)\<close> with the default projection, which leaves the
  password out; the document is serialised by \<open>toJSON\<close>.
\<close>

definition getMe :: "env \<Rightarrow> 'b handler" where
  "getMe e db req =
     (case req_user req of
        None \<Rightarrow> (db, Inl (TypeError ''Cannot read properties of undefined (reading 'id')''))
      | Some me \<Rightarrow>
          (case User_findById e db (u_id me) of
             Inl thrown \<Rightarrow> (db, Inl thrown)
           | Inr found \<Rightarrow>
               (db, Inr \<lparr>status_code = 200, set_cookies = [],
                         json_body =
                           JObj [(''status'', JStr ''success''),
                                 (''data'', JObj [(''user'',
                                    (case found of
                                       None \<Rightarrow> JNull
                                     | Some u \<Rightarrow> toJSON (select_minus_password u) None))])]\<rparr>)))"

definition logout :: "env \<Rightarrow> 'b handler" where
  "logout e db req =
     (db, Inr \<lparr>status_code = 200,
               set_cookies = [\<lparr>c_name = ''token'', c_value = ''none'',
                               c_expires = date_now e + 10 * 1000, c_httpOnly = True,
                               c_secure = False, c_sameSite = None\<rparr>],
               json_body = JObj [(''status'', JStr ''success''),
                                 (''message'', JStr ''Logged out successfully'')]\<rparr>)"

text \<open>routes/authRoutes.js\<close>

definition me_route :: "env \<Rightarrow> 'b handler" where
  "me_route e = run_chain [protect e] (getMe e)"

definition logout_route :: "env \<Rightarrow> 'b handler" where
  "logout_route e = run_chain [protect e] (logout e)"

section \<open>controllers/productController.js\<close>

text \<open>
  The body of a PATCH request: the paths it sets, each with a value of the type the
  schema gives the path. \<open>price\<close> is a sub-document with its own schema, and a body
  that sets it gives the whole sub-document. The numeric fields are integers here and the
  rating is left out; nothing below computes with them.
\<close>

record price_body =
  pr_amount :: "int option"
  pr_currency :: "string option"

record product_body =
  pb_name :: "string option"
  pb_description :: "string option"
  pb_price :: "price_body option"
  pb_category :: "string option"
  pb_stock :: "int option"
  pb_sku :: "string option"
  pb_tags :: "string list option"
  pb_images :: "string list option"
  pb_createdBy :: "oid option"
  pb_isActive :: "bool option"

fun find_product :: "oid \<Rightarrow> product list \<Rightarrow> product option" where
  "find_product k [] = None"
| "find_product k (p # ps) = (if p_id p = k then Some p else find_product k ps)"

text \<open>\<open>Product.findById(id)\<close>\<close>

definition Product_findById :: "env \<Rightarrow> store \<Rightarrow> string \<Rightarrow> error + product option" where
  "Product_findById e db i =
     (case castObjectId e i of
        None \<Rightarrow> Inl (CastError ''_id'' i)
      | Some k \<Rightarrow> Inr (find_product k (products db)))"

fun toUpperChar :: "char \<Rightarrow> char" where
  "toUpperChar c =
     (let n = (of_char c :: nat)
      in if 97 \<le> n \<and> n \<le> 122 then char_of (n - 32) else c)"

definition toUpperCase :: "string \<Rightarrow> string" where
  "toUpperCase s = map toUpperChar s"

definition or_else :: "'a option \<Rightarrow> 'a \<Rightarrow> 'a" where
  "or_else x d = (case x of None \<Rightarrow> d | Some v \<Rightarrow> v)"

text \<open>
  \<open>Object.assign(product, req.body)\<close>, through the setters of the schema. A path the
  body does not name keeps its value. Assigning \<open>price\<close> replaces the sub-document:
  the amount is the one given, missing when none is given, and the currency is the one
  given or the default of the price schema.
\<close>

definition assign_body :: "product \<Rightarrow> product_body \<Rightarrow> product" where
  "assign_body p b =
     p\<lparr>p_name := or_else (map_option trim (pb_name b)) (p_name p),
       p_description := or_else (map_option trim (pb_description b)) (p_description p),
       p_amount := (case pb_price b of None \<Rightarrow> p_amount p | Some pr \<Rightarrow> pr_amount pr),
       p_currency := (case pb_price b of
                        None \<Rightarrow> p_currency p
                      | Some pr \<Rightarrow> or_else (pr_currency pr) ''USD''),
       p_category := or_else (pb_category b) (p_category p),
       p_stock := or_else (pb_stock b) (p_stock p),
       p_sku := or_else (map_option toUpperCase (pb_sku b)) (p_sku p),
       p_tags := or_else (pb_tags b) (p_tags p),
       p_images := or_else (pb_images b) (p_images p),
       p_createdBy := or_else (pb_createdBy b) (p_createdBy p),
       p_isActive := or_else (pb_isActive b) (p_isActive p)\<rparr>"

text \<open>
  Whether the assignment modified the document: a path has a new value, or the price
  sub-document was replaced by one with the same values and Mongoose takes that for a
  modification.
\<close>

definition modifies :: "env \<Rightarrow> product \<Rightarrow> product_body \<Rightarrow> bool" where
  "modifies e p b = (assign_body p b \<noteq> p \<or> (pb_price b \<noteq> None \<and> equalPriceModifies e))"

text \<open>
  What validation reports for a document: the amount that the price schema requires, and
  \<open>productErrors\<close> for the other validators of the schema.
\<close>

definition product_validation :: "env \<Rightarrow> product \<Rightarrow> string list" where
  "product_validation e p =
     (case p_amount p of None \<Rightarrow> [''Path `amount` is required.''] | Some a \<Rightarrow> [])
     @ productErrors e p"

text \<open>
  \<open>product.save()\<close> on a document loaded as \<open>old\<close> and changed to \<open>new\<close>:
  validation, then the write of the modified paths, which the unique index on \<open>sku\<close>
  can refuse; the timestamps plugin sets \<open>updatedAt\<close> when something was modified. An
  unmodified document writes nothing.
\<close>

definition Product_save ::
    "env \<Rightarrow> store \<Rightarrow> product \<Rightarrow> product \<Rightarrow> bool \<Rightarrow> error + store \<times> product" where
  "Product_save e db old new modified =
     (if product_validation e new \<noteq> [] then Inl (ValidationError (product_validation e new))
      else if \<not> modified then Inr (db, new)
      else if p_sku new \<noteq> p_sku old
              \<and> (\<exists>x \<in> set (products db). p_id x \<noteq> p_id new \<and> p_sku x = p_sku new)
      then Inl (MongoServerError 11000 [''sku''])
      else (let saved = new\<lparr>p_updatedAt := date_now e\<rparr>
            in Inr (db\<lparr>products := map (\<lambda>x. if p_id x = p_id saved then saved else x)
                                       (products db)\<rparr>, saved)))"

text \<open>
  The product as the response carries it; \<open>populate('createdBy', 'name email')\<close> replaces
  the reference by those fields of the user, or by null when the user is gone. The
  virtual \<open>formattedPrice\<close> is left out.
\<close>

definition product_fields :: "product \<Rightarrow> json \<Rightarrow> (string \<times> json) list" where
  "product_fields p creator =
     [(''_id'', JStr (p_id p)), (''name'', JStr (p_name p)),
      (''description'', JStr (p_description p)),
      (''price'', JObj ((case p_amount p of None \<Rightarrow> [] | Some a \<Rightarrow> [(''amount'', JNum a)])
                        @ [(''currency'', JStr (p_currency p))])),
      (''category'', JStr (p_category p)), (''stock'', JNum (p_stock p)),
      (''sku'', JStr (p_sku p)),
      (''tags'', JArr (map JStr (p_tags p))),
      (''images'', JArr (map JStr (p_images p))),
      (''createdBy'', creator), (''isActive'', JBool (p_isActive p)),
      (''createdAt'', JNum (int (p_createdAt p))), (''updatedAt'', JNum (int (p_updatedAt p))),
      (''isInStock'', JBool (0 < p_stock p)), (''id'', JStr (p_id p))]"

definition populate_createdBy :: "store \<Rightarrow> product \<Rightarrow> json" where
  "populate_createdBy db p =
     (case find_user (\<lambda>u. u_id u = p_createdBy p) (users db) of
        None \<Rightarrow> JNull
      | Some u \<Rightarrow> JObj [(''_id'', JStr (u_id u)), (''name'', JStr (u_name u)),
                        (''email'', JStr (u_email u))])"

definition product_response :: "nat \<Rightarrow> product \<Rightarrow> json \<Rightarrow> response" where
  "product_response code p creator =
     \<lparr>status_code = code, set_cookies = [],
      json_body = JObj [(''status'', JStr ''success''),
                        (''data'', JObj [(''product'', JObj (product_fields p creator))])]\<rparr>"

definition product_not_found :: error where
  "product_not_found = AppError ''Product not found'' 404"

definition getProduct :: "env \<Rightarrow> 'b handler" where
  "getProduct e db req =
     (case Product_findById e db (params_id req) of
        Inl thrown \<Rightarrow> (db, Inl thrown)
      | Inr None \<Rightarrow> (db, Inl product_not_found)
      | Inr (Some p) \<Rightarrow>
          if \<not> p_isActive p then (db, Inl product_not_found)
          else (db, Inr (product_response 200 p (populate_createdBy db p))))"

definition updateProduct :: "env \<Rightarrow> product_body handler" where
  "updateProduct e db req =
     (case Product_findById e db (params_id req) of
        Inl thrown \<Rightarrow> (db, Inl thrown)
      | Inr None \<Rightarrow> (db, Inl product_not_found)
      | Inr (Some p) \<Rightarrow>
          (case Product_save e db p (assign_body p (body req)) (modifies e p (body req)) of
             Inl thrown \<Rightarrow> (db, Inl thrown)
           | Inr (db', saved) \<Rightarrow>
               (db', Inr (product_response 200 saved (JStr (p_createdBy saved))))))"

definition deleteProduct :: "env \<Rightarrow> 'b handler" where
  "deleteProduct e db req =
     (case Product_findById e db (params_id req) of
        Inl thrown \<Rightarrow> (db, Inl thrown)
      | Inr None \<Rightarrow> (db, Inl product_not_found)
      | Inr (Some p) \<Rightarrow>
          (case Product_save e db p (p\<lparr>p_isActive := False\<rparr>) (p_isActive p) of
             Inl thrown \<Rightarrow> (db, Inl thrown)
           | Inr (db', saved) \<Rightarrow>
               (db', Inr \<lparr>status_code = 200, set_cookies = [],
                          json_body = JObj [(''status'', JStr ''success''),
                                            (''message'', JStr ''Product deleted successfully'')]\<rparr>)))"


definition get_product_route :: "env \<Rightarrow> 'b handler" where
  "get_product_route e = run_chain [] (getProduct e)"



section \<open>Properties the statements below speak of\<close>

text \<open>A stored secret is hashed when it is the value of \<open>bcrypt.hash\<close> for some salt.\<close>

definition hashed :: "env \<Rightarrow> string \<Rightarrow> bool" where
  "hashed e h = (\<exists>plain salt. h = bcrypt_hash e plain salt)"

definition all_hashed :: "env \<Rightarrow> store \<Rightarrow> bool" where
  "all_hashed e db = (\<forall>u \<in> set (users db). hashed e (u_password u))"

text \<open>
  Two stores that differ at most in the passwords they hold: the same accounts in the
  same order with the same public fields, and the same products.
\<close>

definition same_public :: "store \<Rightarrow> store \<Rightarrow> bool" where
  "same_public db db' =
     (map user_public.truncate (users db) = map user_public.truncate (users db')
      \<and> products db = products db')"

text \<open>
  The one thing \<open>login\<close> computes from a stored password: whether \<open>bcrypt.compare\<close>
  accepts the password of the request for the account its email names.
\<close>

definition password_matches :: "env \<Rightarrow> store \<Rightarrow> auth_body \<Rightarrow> bool" where
  "password_matches e db b =
     (case (b_email b, b_password b) of
        (Some email, Some password) \<Rightarrow>
          (case findByEmail db email of
             None \<Rightarrow> False
           | Some u \<Rightarrow> bcrypt_compare e password (u_password u))
      | _ \<Rightarrow> False)"

text \<open>The errors and responses that the statements name.\<close>

definition forbidden :: "string \<Rightarrow> error" where
  "forbidden r = AppError (''User role '' @ [CHR 0x27] @ r @ [CHR 0x27]
                               @ '' is not authorized to access this route'') 403"



definition logged_out :: "env \<Rightarrow> response" where
  "logged_out e =
     \<lparr>status_code = 200,
      set_cookies = [\<lparr>c_name = ''token'', c_value = ''none'', c_expires = date_now e + 10000,
                      c_httpOnly = True, c_secure = False, c_sameSite = None\<rparr>],
      json_body = JObj [(''status'', JStr ''success''),
                        (''message'', JStr ''Logged out successfully'')]\<rparr>"



section \<open>A concrete installation\<close>

text \<open>
  jsonwebtoken's \<open>verify\<close> as the library documents it, over tokens already decoded: a
  token that does not decode is malformed, the signature is checked with the secret, and
  the \<open>exp\<close> claim (in seconds) is compared with the clock (in milliseconds) last.
\<close>

record jwt =
  t_id :: string
  t_role :: string
  t_exp :: nat
  t_key :: string

definition jsonwebtoken_verify ::
    "(string \<Rightarrow> jwt option) \<Rightarrow> string \<Rightarrow> nat \<Rightarrow> string \<Rightarrow> error + jwt_payload" where
  "jsonwebtoken_verify decode secret clock token =
     (case decode token of
        None \<Rightarrow> Inl (JsonWebTokenError ''jwt malformed'')
      | Some t \<Rightarrow>
          if t_key t \<noteq> secret then Inl (JsonWebTokenError ''invalid signature'')
          else if t_exp t \<le> clock div 1000 then Inl (TokenExpiredError ''jwt expired'')
          else Inr \<lparr>jwt_id = t_id t, jwt_role = t_role t\<rparr>)"

definition is_hex :: "char \<Rightarrow> bool" where
  "is_hex c = (let n = (of_char c :: nat)
               in (48 \<le> n \<and> n \<le> 57) \<or> (97 \<le> n \<and> n \<le> 102) \<or> (65 \<le> n \<and> n \<le> 70))"

definition objectIdOf :: "string \<Rightarrow> oid option" where
  "objectIdOf s = (if length s = 24 \<and> list_all is_hex s then Some (toLowerCase s) else None)"

definition alice :: user where
  "alice = \<lparr>u_id = ''650000000000000000000a01'', u_name = ''Alice'', u_email = ''alice@example.com'',
            u_role = ''user'', u_isActive = True, u_lastLogin = None,
            u_createdAt = 1690000000000, u_updatedAt = 1690000000000,
            u_password = ''$2a$12$drowssaP''\<rparr>"

definition bob :: user where
  "bob = \<lparr>u_id = ''650000000000000000000b02'', u_name = ''Bob'', u_email = ''bob@example.com'',
          u_role = ''admin'', u_isActive = True, u_lastLogin = None,
          u_createdAt = 1690000000000, u_updatedAt = 1690000000000,
          u_password = ''$2a$12$321nimdA''\<rparr>"

definition carol :: user where
  "carol = \<lparr>u_id = ''650000000000000000000c03'', u_name = ''Carol'', u_email = ''carol@example.com'',
            u_role = ''user'', u_isActive = False, u_lastLogin = None,
            u_createdAt = 1690000000000, u_updatedAt = 1690000000000,
            u_password = ''$2a$12$1terceS''\<rparr>"

definition laptop :: product where
  "laptop = \<lparr>p_id = ''660000000000000000000001'', p_name = ''Laptop'',
             p_description = ''High-performance laptop'', p_amount = Some 999, p_currency = ''USD'',
             p_category = ''electronics'', p_stock = 10, p_sku = ''LAP-001'', p_tags = [],
             p_images = [], p_createdBy = ''650000000000000000000b02'', p_isActive = True,
             p_createdAt = 1690000000000, p_updatedAt = 1690000000000\<rparr>"

definition phone :: product where
  "phone = \<lparr>p_id = ''660000000000000000000002'', p_name = ''Phone'',
            p_description = ''Discontinued phone'', p_amount = Some 199, p_currency = ''EUR'',
            p_category = ''electronics'', p_stock = 0, p_sku = ''PHN-001'', p_tags = [],
            p_images = [], p_createdBy = ''650000000000000000000b02'', p_isActive = False,
            p_createdAt = 1690000000000, p_updatedAt = 1695000000000\<rparr>"

definition sample_db :: store where
  "sample_db = \<lparr>users = [alice, bob, carol], products = [laptop, phone]\<rparr>"

text \<open>The same store with another hash of Alice's password.\<close>

definition rehashed_db :: store where
  "rehashed_db = \<lparr>users = [alice\<lparr>u_password := ''$2a$12$drowssaPweN''\<rparr>, bob, carol],
                   products = [laptop, phone]\<rparr>"

definition sample_decode :: "string \<Rightarrow> jwt option" where
  "sample_decode token =
     (if token = ''tok.alice''
      then Some \<lparr>t_id = ''650000000000000000000a01'', t_role = ''user'', t_exp = 1700600000, t_key = ''s3cret''\<rparr>
      else if token = ''tok.alice.old''
      then Some \<lparr>t_id = ''650000000000000000000a01'', t_role = ''user'', t_exp = 1699000000, t_key = ''s3cret''\<rparr>
      else if token = ''tok.alice.forged''
      then Some \<lparr>t_id = ''650000000000000000000a01'', t_role = ''user'', t_exp = 1700600000, t_key = ''guess''\<rparr>
      else if token = ''tok.bob''
      then Some \<lparr>t_id = ''650000000000000000000b02'', t_role = ''admin'', t_exp = 1700600000, t_key = ''s3cret''\<rparr>
      else if token = ''tok.carol''
      then Some \<lparr>t_id = ''650000000000000000000c03'', t_role = ''user'', t_exp = 1700600000, t_key = ''s3cret''\<rparr>
      else None)"

definition sample_env :: env where
  "sample_env =
     \<lparr>jwt_verify = jsonwebtoken_verify sample_decode ''s3cret'' 1700000000000,
      jwt_sign = (\<lambda>p. ''tok.'' @ jwt_id p),
      bcrypt_genSalt = ''$2a$12$'',
      bcrypt_hash = (\<lambda>plain salt. salt @ rev plain),
      bcrypt_compare = (\<lambda>plain h. drop 7 h = rev plain),
      castObjectId = objectIdOf,
      newObjectId = ''650000000000000000000d04'',
      emailMatch = (\<lambda>m. CHR ''@'' \<in> set m),
      productErrors = (\<lambda>p. if p_name p = [] then [''Product name is required''] else []),
      equalPriceModifies = True,
      date_now = 1700000000000,
      isDevelopment = False,
      isProduction = True\<rparr>"

definition bearer :: "string \<Rightarrow> 'b \<Rightarrow> 'b request" where
  "bearer token b =
     \<lparr>authorization = Some (''Bearer '' @ token), cookies = Some [], req_user = None,
      params_id = [], body = b\<rparr>"

definition anonymous :: "'b \<Rightarrow> 'b request" where
  "anonymous b = \<lparr>authorization = None, cookies = Some [], req_user = None, params_id = [], body = b\<rparr>"

text \<open>Request bodies of the quick-start guide.\<close>

definition john :: auth_body where
  "john = \<lparr>b_name = Some ''John Doe'', b_email = Some ''john@example.com'',
           b_password = Some ''Password123''\<rparr>"

definition credentials :: "string \<Rightarrow> string \<Rightarrow> auth_body" where
  "credentials email password = \<lparr>b_name = None, b_email = Some email, b_password = Some password\<rparr>"



section \<open>Auxiliary facts\<close>

lemma find_user_Some: "find_user P us = Some u \<Longrightarrow> u \<in> set us \<and> P u"
  by (induction us) (auto split: if_splits)



lemma split_space_word: "CHR '' '' \<notin> set t \<Longrightarrow> split_space t = [t]"
  by (induction t) auto

lemma split_space_bearer: "CHR '' '' \<notin> set t \<Longrightarrow> split_space (''Bearer '' @ t) = [''Bearer'', t]"
  by (simp add: split_space_word)

lemma bearer_header_cookies [simp]: "bearer_header (req\<lparr>cookies := cs\<rparr>) = bearer_header req"
  by (simp add: bearer_header_def)

lemma run_chain_stops:
  "m db req = Inl err \<Longrightarrow> run_chain (m # ms) h db req = (db, Inl err)"
  by simp

lemma run_chain_passes:
  "m db req = Inr req' \<Longrightarrow> run_chain (m # ms) h db req = run_chain ms h db req'"
  by simp

lemma protect_rejected:
  "token_of req = Some t \<Longrightarrow> jwt_verify e t = Inl thrown \<Longrightarrow> protect e db req = Inl not_authorized"
  by (simp add: protect_def)

lemma jsonwebtoken_verify_lapsed:
  "decode t = Some j \<Longrightarrow> t_exp j \<le> clock div 1000 \<Longrightarrow>
     jsonwebtoken_verify decode secret clock t = Inl (JsonWebTokenError ''invalid signature'')
     \<or> jsonwebtoken_verify decode secret clock t = Inl (TokenExpiredError ''jwt expired'')"
  by (simp add: jsonwebtoken_verify_def)

lemma not_authorized_response:
  "errorHandler dev not_authorized =
     \<lparr>res_code = 401, res_status = ''fail'', res_message = ''Not authorized to access this route''\<rparr>"
  by (cases dev) (simp_all add: not_authorized_def sendErrorDev_def app_status_def leading_digit.simps)

lemmas sample_defs =
  sample_env_def sample_db_def sample_decode_def jsonwebtoken_verify_def objectIdOf_def is_hex_def
  alice_def bob_def carol_def laptop_def phone_def bearer_def anonymous_def toLowerCase_def
  email_setters_def trim_def is_space_def




lemmas auth_defs =
  protect_def optionalAuth_def token_of_def bearer_header_def cookie_token_def startsWith_def
  User_findById_def select_minus_password_def user_public.truncate_def

section \<open>Token verification\<close>

text \<open>
  C1 (as the code has it). A token that \<open>jwt.verify\<close> rejects, whether because its
  expiry has passed or because its signature is bad, makes \<open>protect\<close> fail with one and
  the same error: status 401, message "Not authorized to access this route". The chain
  stops there, the store is unchanged, and the response of the error handler is the same
  in development and in production. There is no separate outcome for an expired token.
  (The last part recalls that jsonwebtoken rejects a token whose expiry has passed,
  whatever its signature.)
\<close>

theorem protect_expired_like_bad_signature:
  "token_of req = Some t \<Longrightarrow> jwt_verify e t = Inl thrown \<Longrightarrow>
     protect e db req = Inl not_authorized
     \<and> run_chain (protect e # ms) h db req = (db, Inl not_authorized)
     \<and> errorHandler dev not_authorized =
         \<lparr>res_code = 401, res_status = ''fail'',
          res_message = ''Not authorized to access this route''\<rparr>
     \<and> (decode t' = Some j \<longrightarrow> t_exp j \<le> clock div 1000 \<longrightarrow>
          (\<exists>thrown'. jsonwebtoken_verify decode secret clock t' = Inl thrown'))"
  using jsonwebtoken_verify_lapsed [of decode t' j clock secret]
  by (auto simp: protect_rejected not_authorized_response)

theorem protect_expired_like_bad_signature_witness:
  "token_of (bearer ''tok.alice.old'' ()) = Some ''tok.alice.old''
   \<and> jwt_verify sample_env ''tok.alice.old'' = Inl (TokenExpiredError ''jwt expired'')
   \<and> protect sample_env sample_db (bearer ''tok.alice.old'' ()) = Inl not_authorized
   \<and> run_chain [protect sample_env] (getMe sample_env) sample_db (bearer ''tok.alice.old'' ())
       = (sample_db, Inl not_authorized)"
proof -
  have tok: "token_of (bearer ''tok.alice.old'' ()) = Some ''tok.alice.old''"
    by (simp add: auth_defs sample_defs)
  have thrown: "jwt_verify sample_env ''tok.alice.old'' = Inl (TokenExpiredError ''jwt expired'')"
    by (simp add: sample_defs)
  show ?thesis
    using protect_expired_like_bad_signature
        [OF tok thrown, where db = sample_db and ms = "[]" and h = "getMe sample_env"]
      tok thrown
    by simp
qed

text \<open>
  An expired token and a forged one are answered alike, and not with the message that
  \<open>handleJWTExpiredError\<close> holds for a \<open>TokenExpiredError\<close> that reaches the error
  handler.
\<close>

theorem expired_token_counterexample:
  "jwt_verify sample_env ''tok.alice.old'' = Inl (TokenExpiredError ''jwt expired'')
   \<and> jwt_verify sample_env ''tok.alice.forged'' = Inl (JsonWebTokenError ''invalid signature'')
   \<and> protect sample_env sample_db (bearer ''tok.alice.old'' ()) = Inl not_authorized
   \<and> protect sample_env sample_db (bearer ''tok.alice.forged'' ()) = Inl not_authorized
   \<and> errorHandler False not_authorized \<noteq> errorHandler False (TokenExpiredError ''jwt expired'')"
  by (simp add: auth_defs sample_defs not_authorized_def handleJWTExpiredError_def
      app_status_def leading_digit.simps)

text \<open>
  C5. A request whose token verifies and names a stored account that is inactive is
  rejected by \<open>protect\<close> with status 401, "User account is inactive"; no later stage of
  the route runs and the store is unchanged.
\<close>

theorem protect_inactive_account:
  "token_of req = Some t \<Longrightarrow> t \<noteq> [] \<Longrightarrow> jwt_verify e t = Inr decoded \<Longrightarrow>
   User_findById e db (jwt_id decoded) = Inr (Some u) \<Longrightarrow> \<not> u_isActive u \<Longrightarrow>
     protect e db req = Inl (AppError ''User account is inactive'' 401)
     \<and> run_chain (protect e # ms) h db req = (db, Inl (AppError ''User account is inactive'' 401))
     \<and> res_code (errorHandler dev (AppError ''User account is inactive'' 401)) = 401"
  by (cases dev) (simp_all add: protect_def sendErrorDev_def)

theorem protect_inactive_account_witness:
  "token_of (bearer ''tok.carol'' ()) = Some ''tok.carol''
   \<and> jwt_verify sample_env ''tok.carol'' = Inr \<lparr>jwt_id = u_id carol, jwt_role = ''user''\<rparr>
   \<and> User_findById sample_env sample_db (u_id carol) = Inr (Some carol)
   \<and> \<not> u_isActive carol
   \<and> protect sample_env sample_db (bearer ''tok.carol'' ())
       = Inl (AppError ''User account is inactive'' 401)
   \<and> run_chain [protect sample_env] (getMe sample_env) sample_db (bearer ''tok.carol'' ())
       = (sample_db, Inl (AppError ''User account is inactive'' 401))"
proof -
  have tok: "token_of (bearer ''tok.carol'' ()) = Some ''tok.carol''"
    by (simp add: auth_defs sample_defs)
  have ne: "''tok.carol'' \<noteq> []" by simp
  have dec: "jwt_verify sample_env ''tok.carol'' = Inr \<lparr>jwt_id = u_id carol, jwt_role = ''user''\<rparr>"
    by (simp add: sample_defs)
  have found: "User_findById sample_env sample_db (jwt_id \<lparr>jwt_id = u_id carol, jwt_role = ''user''\<rparr>)
                 = Inr (Some carol)"
    by (simp add: auth_defs sample_defs)
  have inactive: "\<not> u_isActive carol" by (simp add: carol_def)
  show ?thesis
    using protect_inactive_account [OF tok ne dec found inactive, of "[]" "getMe sample_env"]
      tok dec found inactive
    by simp
qed

lemma token_of_bearer:
  "authorization req = Some (''Bearer '' @ t) \<Longrightarrow> CHR '' '' \<notin> set t \<Longrightarrow> token_of req = Some t"
  using split_space_bearer [of t] by (simp add: token_of_def bearer_header_def startsWith_def)

lemma token_of_header_only:
  "bearer_header req = Some h \<Longrightarrow> token_of (req\<lparr>cookies := cs\<rparr>) = token_of req"
  by (simp add: token_of_def)

lemma protect_attaches_only:
  "map_sum id req_user (protect e db (req\<lparr>cookies := cs\<rparr>)) = map_sum id req_user (protect e db req)"
  if "token_of (req\<lparr>cookies := cs\<rparr>) = token_of req"
  using that by (auto simp: protect_def split: option.splits sum.splits)

text \<open>
  C7. When the Authorization header is \<open>Bearer t\<close>, the token that \<open>protect\<close> verifies
  is \<open>t\<close>, whatever the cookies hold: if \<open>t\<close> verifies and names a stored, active
  account, that account is attached and the request passes; if \<open>jwt.verify\<close> rejects
  \<open>t\<close>, the request is refused, even with a good token in the cookie. Whenever a header
  starting with \<open>Bearer\<close> is present the cookies are not read. Without such a header the
  cookie named \<open>token\<close> is the token that is verified. With neither a header nor a
  cookie \<open>protect\<close> fails with status 401 and the route stops.
\<close>

theorem protect_header_before_cookie:
  "(authorization req = Some (''Bearer '' @ t) \<longrightarrow> CHR '' '' \<notin> set t \<longrightarrow>
      token_of req = Some t
      \<and> map_sum id req_user (protect e db (req\<lparr>cookies := cs\<rparr>)) = map_sum id req_user (protect e db req)
      \<and> (\<forall>thrown. jwt_verify e t = Inl thrown \<longrightarrow> protect e db req = Inl not_authorized)
      \<and> (\<forall>decoded u. t \<noteq> [] \<and> jwt_verify e t = Inr decoded
             \<and> User_findById e db (jwt_id decoded) = Inr (Some u) \<and> u_isActive u
           \<longrightarrow> protect e db req = Inr (req\<lparr>req_user := Some (select_minus_password u)\<rparr>)))
   \<and> (bearer_header req = Some h \<longrightarrow> token_of (req\<lparr>cookies := cs\<rparr>) = token_of req)
   \<and> (bearer_header req = None \<longrightarrow>
        token_of req = cookie_token req
        \<and> (\<forall>c thrown. cookie_token req = Some c \<and> jwt_verify e c = Inl thrown
              \<longrightarrow> protect e db req = Inl not_authorized)
        \<and> (\<forall>c decoded u. cookie_token req = Some c \<and> jwt_verify e c = Inr decoded
               \<and> User_findById e db (jwt_id decoded) = Inr (Some u) \<and> u_isActive u
             \<longrightarrow> protect e db req = Inr (req\<lparr>req_user := Some (select_minus_password u)\<rparr>)))
   \<and> (authorization req = None \<longrightarrow> cookie_token req = None \<longrightarrow>
        protect e db req = Inl not_authorized
        \<and> run_chain (protect e # ms) handler db req = (db, Inl not_authorized)
        \<and> res_code (errorHandler dev not_authorized) = 401)"
proof -
  have a: "token_of req = Some t
      \<and> map_sum id req_user (protect e db (req\<lparr>cookies := cs\<rparr>)) = map_sum id req_user (protect e db req)
      \<and> (\<forall>thrown. jwt_verify e t = Inl thrown \<longrightarrow> protect e db req = Inl not_authorized)
      \<and> (\<forall>decoded u. t \<noteq> [] \<and> jwt_verify e t = Inr decoded
             \<and> User_findById e db (jwt_id decoded) = Inr (Some u) \<and> u_isActive u
           \<longrightarrow> protect e db req = Inr (req\<lparr>req_user := Some (select_minus_password u)\<rparr>))"
    if h: "authorization req = Some (''Bearer '' @ t)" and t: "CHR '' '' \<notin> set t"
  proof -
    have tok: "token_of req = Some t" using h t by (rule token_of_bearer)
    moreover have "token_of (req\<lparr>cookies := cs\<rparr>) = Some t"
      using h t by (intro token_of_bearer) simp_all
    ultimately have same: "map_sum id req_user (protect e db (req\<lparr>cookies := cs\<rparr>))
                             = map_sum id req_user (protect e db req)"
      by (simp add: protect_attaches_only)
    have refused: "protect e db req = Inl not_authorized" if "jwt_verify e t = Inl thrown" for thrown
      using tok that by (rule protect_rejected)
    have passed: "protect e db req = Inr (req\<lparr>req_user := Some (select_minus_password u)\<rparr>)"
      if "t \<noteq> [] \<and> jwt_verify e t = Inr decoded
             \<and> User_findById e db (jwt_id decoded) = Inr (Some u) \<and> u_isActive u" for decoded u
      using tok that by (simp add: protect_def)
    from tok same refused passed show ?thesis by blast
  qed
  have b: "token_of (req\<lparr>cookies := cs\<rparr>) = token_of req" if "bearer_header req = Some h"
    using that by (rule token_of_header_only)
  have c: "token_of req = cookie_token req
        \<and> (\<forall>c thrown. cookie_token req = Some c \<and> jwt_verify e c = Inl thrown
              \<longrightarrow> protect e db req = Inl not_authorized)
        \<and> (\<forall>c decoded u. cookie_token req = Some c \<and> jwt_verify e c = Inr decoded
               \<and> User_findById e db (jwt_id decoded) = Inr (Some u) \<and> u_isActive u
             \<longrightarrow> protect e db req = Inr (req\<lparr>req_user := Some (select_minus_password u)\<rparr>))"
    if none: "bearer_header req = None"
  proof -
    from none have tok: "token_of req = cookie_token req" by (simp add: token_of_def)
    have refused: "protect e db req = Inl not_authorized"
      if "cookie_token req = Some c \<and> jwt_verify e c = Inl thrown" for c thrown
      using tok that by (simp add: protect_rejected)
    have "c \<noteq> []" if "cookie_token req = Some c" for c
      using that by (auto simp: cookie_token_def split: option.splits if_splits)
    then have passed: "protect e db req = Inr (req\<lparr>req_user := Some (select_minus_password u)\<rparr>)"
      if "cookie_token req = Some c \<and> jwt_verify e c = Inr decoded
               \<and> User_findById e db (jwt_id decoded) = Inr (Some u) \<and> u_isActive u" for c decoded u
      using tok that by (simp add: protect_def)
    from tok refused passed show ?thesis by blast
  qed
  have d: "protect e db req = Inl not_authorized
        \<and> run_chain (protect e # ms) handler db req = (db, Inl not_authorized)
        \<and> res_code (errorHandler dev not_authorized) = 401"
    if "authorization req = None" and "cookie_token req = None"
    using that by (simp add: protect_def token_of_def bearer_header_def not_authorized_response)
  from a b c d show ?thesis by blast
qed

text \<open>
  Alice's token in the header with Bob's in the cookie resolves to Alice; a forged token
  in the header is refused although Bob's good token is in the cookie; Bob's token in
  the cookie alone resolves to Bob; a request with neither is refused.
\<close>

theorem protect_header_before_cookie_witness:
  "authorization ((bearer ''tok.alice'' ())\<lparr>cookies := Some [(''token'', ''tok.bob'')]\<rparr>)
      = Some (''Bearer '' @ ''tok.alice'')
   \<and> CHR '' '' \<notin> set ''tok.alice''
   \<and> cookie_token ((bearer ''tok.alice'' ())\<lparr>cookies := Some [(''token'', ''tok.bob'')]\<rparr>)
       = Some ''tok.bob''
   \<and> protect sample_env sample_db ((bearer ''tok.alice'' ())\<lparr>cookies := Some [(''token'', ''tok.bob'')]\<rparr>)
       = Inr ((bearer ''tok.alice'' ())\<lparr>cookies := Some [(''token'', ''tok.bob'')],
                                       req_user := Some (select_minus_password alice)\<rparr>)
   \<and> protect sample_env sample_db
         ((bearer ''tok.alice.forged'' ())\<lparr>cookies := Some [(''token'', ''tok.bob'')]\<rparr>)
       = Inl not_authorized
   \<and> bearer_header (anonymous ()\<lparr>cookies := Some [(''token'', ''tok.bob'')]\<rparr>) = None
   \<and> protect sample_env sample_db (anonymous ()\<lparr>cookies := Some [(''token'', ''tok.bob'')]\<rparr>)
       = Inr (anonymous ()\<lparr>cookies := Some [(''token'', ''tok.bob'')],
                            req_user := Some (select_minus_password bob)\<rparr>)
   \<and> authorization (anonymous ()) = None \<and> cookie_token (anonymous ()) = None
   \<and> protect sample_env sample_db (anonymous ()) = Inl not_authorized"
proof -
  let ?both = "(bearer ''tok.alice'' ())\<lparr>cookies := Some [(''token'', ''tok.bob'')]\<rparr>"
  let ?forged = "(bearer ''tok.alice.forged'' ())\<lparr>cookies := Some [(''token'', ''tok.bob'')]\<rparr>"
  let ?cookie = "anonymous ()\<lparr>cookies := Some [(''token'', ''tok.bob'')]\<rparr>"
  have h: "authorization ?both = Some (''Bearer '' @ ''tok.alice'')" by (simp add: bearer_def)
  have hf: "authorization ?forged = Some (''Bearer '' @ ''tok.alice.forged'')" by (simp add: bearer_def)
  have t: "CHR '' '' \<notin> set ''tok.alice''" and tf: "CHR '' '' \<notin> set ''tok.alice.forged''" by simp_all
  have kb: "cookie_token ?both = Some ''tok.bob''" by (simp add: cookie_token_def)
  have n: "bearer_header ?cookie = None" by (simp add: bearer_header_def anonymous_def)
  have c: "cookie_token ?cookie = Some ''tok.bob''" by (simp add: cookie_token_def)
  have a: "authorization (anonymous ()) = None" by (simp add: anonymous_def)
  have k: "cookie_token (anonymous ()) = None" by (simp add: cookie_token_def anonymous_def)
  have va: "jwt_verify sample_env ''tok.alice'' = Inr \<lparr>jwt_id = u_id alice, jwt_role = ''user''\<rparr>"
    and vb: "jwt_verify sample_env ''tok.bob'' = Inr \<lparr>jwt_id = u_id bob, jwt_role = ''admin''\<rparr>"
    and vf: "jwt_verify sample_env ''tok.alice.forged'' = Inl (JsonWebTokenError ''invalid signature'')"
    by (simp_all add: sample_defs)
  have fa: "User_findById sample_env sample_db (u_id alice) = Inr (Some alice)"
    and fb: "User_findById sample_env sample_db (u_id bob) = Inr (Some bob)"
    by (simp_all add: auth_defs sample_defs)
  have active: "u_isActive alice" "u_isActive bob" by (simp_all add: alice_def bob_def)
  have 1: "protect sample_env sample_db ?both
             = Inr (?both\<lparr>req_user := Some (select_minus_password alice)\<rparr>)"
    using protect_header_before_cookie [where req = ?both and t = "''tok.alice''"
        and e = sample_env and db = sample_db] h t va fa active
    by simp
  have 2: "protect sample_env sample_db ?forged = Inl not_authorized"
    using protect_header_before_cookie [where req = ?forged and t = "''tok.alice.forged''"
        and e = sample_env and db = sample_db] hf tf vf
    by simp
  have 3: "protect sample_env sample_db ?cookie
             = Inr (?cookie\<lparr>req_user := Some (select_minus_password bob)\<rparr>)"
    using protect_header_before_cookie [where req = ?cookie and e = sample_env and db = sample_db]
      n c vb fb active
    by simp
  have 4: "protect sample_env sample_db (anonymous ()) = Inl not_authorized"
    using protect_header_before_cookie [where req = "anonymous ()" and e = sample_env
        and db = sample_db] a k
    by simp
  from h t kb 1 2 n 3 a k 4 show ?thesis by simp
qed



section \<open>Authorization\<close>

text \<open>
  C3 (as the code has it). For a request with a resolved identity of role \<open>r\<close>,
  \<open>authorize(...roles)\<close> passes the request on if and only if \<open>r\<close> is one of
  \<open>roles\<close>; otherwise it fails with status 403 and no later stage runs. Called with no
  role at all it rejects every identity. A route that admits every authenticated identity
  is one with no \<open>authorize\<close> stage: an empty chain hands the request to the handler.
\<close>

theorem authorize_iff_member:
  "req_user req = Some u \<Longrightarrow>
     (authorize roles req = Inr req \<longleftrightarrow> u_role u \<in> set roles)
     \<and> (u_role u \<in> set roles \<longrightarrow>
          run_chain ((\<lambda>db. authorize roles) # ms) handler db req = run_chain ms handler db req)
     \<and> (u_role u \<notin> set roles \<longrightarrow>
          authorize roles req = Inl (forbidden (u_role u))
          \<and> run_chain ((\<lambda>db. authorize roles) # ms) handler db req = (db, Inl (forbidden (u_role u)))
          \<and> res_code (errorHandler dev (forbidden (u_role u))) = 403)
     \<and> authorize [] req = Inl (forbidden (u_role u))
     \<and> run_chain [] handler db req = handler db req"
  by (cases dev) (simp_all add: authorize_def forbidden_def sendErrorDev_def)

theorem authorize_iff_member_witness:
  "req_user ((bearer ''tok.alice'' ())\<lparr>req_user := Some (select_minus_password alice)\<rparr>)
     = Some (select_minus_password alice)
   \<and> u_role (select_minus_password alice) \<notin> set [''admin'']
   \<and> authorize [''admin''] ((bearer ''tok.alice'' ())\<lparr>req_user := Some (select_minus_password alice)\<rparr>)
       = Inl (forbidden ''user'')
   \<and> authorize [''admin''] ((bearer ''tok.bob'' ())\<lparr>req_user := Some (select_minus_password bob)\<rparr>)
       = Inr ((bearer ''tok.bob'' ())\<lparr>req_user := Some (select_minus_password bob)\<rparr>)"
proof -
  let ?a = "(bearer ''tok.alice'' ())\<lparr>req_user := Some (select_minus_password alice)\<rparr>"
  let ?b = "(bearer ''tok.bob'' ())\<lparr>req_user := Some (select_minus_password bob)\<rparr>"
  have ua: "req_user ?a = Some (select_minus_password alice)" by simp
  have ub: "req_user ?b = Some (select_minus_password bob)" by simp
  have ra: "u_role (select_minus_password alice) = ''user''"
    by (simp add: alice_def select_minus_password_def user_public.truncate_def)
  have rb: "u_role (select_minus_password bob) = ''admin''"
    by (simp add: bob_def select_minus_password_def user_public.truncate_def)
  show ?thesis
    using authorize_iff_member [OF ua, of "[''admin'']"] authorize_iff_member [OF ub, of "[''admin'']"]
      ua ra rb
    by simp
qed

text \<open>An empty list of roles lets nobody through.\<close>

theorem authorize_empty_counterexample:
  "req_user ((bearer ''tok.alice'' ())\<lparr>req_user := Some (select_minus_password alice)\<rparr>)
     = Some (select_minus_password alice)
   \<and> authorize [] ((bearer ''tok.alice'' ())\<lparr>req_user := Some (select_minus_password alice)\<rparr>)
       = Inl (AppError ''User role 'user' is not authorized to access this route'' 403)"
  by (simp add: authorize_def alice_def select_minus_password_def user_public.truncate_def)

section \<open>Registration and login\<close>




lemma register_john:
  "register sample_env sample_db (anonymous john) =
     (sample_db\<lparr>users := users sample_db @
         [\<lparr>u_id = ''650000000000000000000d04'', u_name = ''John Doe'', u_email = ''john@example.com'',
           u_role = ''user'', u_isActive = True, u_lastLogin = None,
           u_createdAt = 1700000000000, u_updatedAt = 1700000000000,
           u_password = ''$2a$12$321drowssaP''\<rparr>]\<rparr>,
      Inr \<lparr>status_code = 201,
           set_cookies = [\<lparr>c_name = ''token'', c_value = ''tok.650000000000000000000d04'',
                           c_expires = 1700604800000, c_httpOnly = True, c_secure = True,
                           c_sameSite = Some ''strict''\<rparr>],
           json_body = JObj [(''status'', JStr ''success''),
             (''data'', JObj [(''user'', JObj [(''id'', JStr ''650000000000000000000d04''),
                                             (''name'', JStr ''John Doe''),
                                             (''email'', JStr ''john@example.com''),
                                             (''role'', JStr ''user'')]),
                            (''token'', JStr ''tok.650000000000000000000d04'')])]\<rparr>)"
  by (simp add: register_def findByEmail_def User_create_def sample_defs john_def generateToken_def
      token_cookie_def auth_json_def name_errors_def email_errors_def password_errors_def Let_def)






lemma toJSON_no_password: "\<not> has_key ''password'' (toJSON u pw)"
  by (cases pw; cases "u_lastLogin u")
    (simp_all add: toJSON_def toObject_def delete_key_def fullProfile_def)

lemma auth_json_no_password: "\<not> has_key ''password'' (auth_json u token)"
  by (simp add: auth_json_def)

lemma register_response_no_password:
  "register e db req = (db', Inr r) \<Longrightarrow> \<not> has_key ''password'' (json_body r)"
  by (auto simp: register_def Let_def auth_json_no_password split: option.splits sum.splits prod.splits)

lemma login_response_no_password:
  "login e db req = (db', Inr r) \<Longrightarrow> \<not> has_key ''password'' (json_body r)"
  by (auto simp: login_def Let_def auth_json_no_password split: option.splits if_splits)

lemma getMe_response_no_password:
  "getMe e db req = (db', Inr r) \<Longrightarrow> db' = db \<and> \<not> has_key ''password'' (json_body r)"
  using toJSON_no_password
  by (auto simp: getMe_def split: option.splits sum.splits)

lemma hashed_hash: "hashed e (bcrypt_hash e plain salt)"
  unfolding hashed_def by blast

lemma User_create_hashed:
  "all_hashed e db \<Longrightarrow> User_create e db b = Inr (db', u) \<Longrightarrow> all_hashed e db'"
  by (auto simp: User_create_def Let_def all_hashed_def hashed_hash split: if_splits)

lemma register_hashed: "all_hashed e db \<Longrightarrow> all_hashed e (fst (register e db req))"
  by (auto simp: register_def Let_def dest: User_create_hashed split: option.splits sum.splits prod.splits)

lemma save_user_hashed:
  "all_hashed e db \<Longrightarrow> hashed e (u_password u) \<Longrightarrow> all_hashed e (save_user db u)"
  by (auto simp: all_hashed_def save_user_def)

lemma findByEmail_member: "findByEmail db email = Some u \<Longrightarrow> u \<in> set (users db)"
  by (simp add: findByEmail_def find_user_Some)

lemma login_hashed: "all_hashed e db \<Longrightarrow> all_hashed e (fst (login e db req))"
proof -
  assume inv: "all_hashed e db"
  have "all_hashed e (save_user db (u\<lparr>u_lastLogin := l, u_updatedAt := t\<rparr>))"
    if "findByEmail db email = Some u" for email u l t
  proof (rule save_user_hashed [OF inv])
    from that have "u \<in> set (users db)" by (rule findByEmail_member)
    with inv show "hashed e (u_password (u\<lparr>u_lastLogin := l, u_updatedAt := t\<rparr>))"
      by (simp add: all_hashed_def)
  qed
  with inv show ?thesis
    by (auto simp: login_def Let_def split: option.splits)
qed

lemma protect_resolves:
  "protect e db req = Inr req' \<Longrightarrow>
     \<exists>t decoded u. token_of req = Some t \<and> jwt_verify e t = Inr decoded
        \<and> User_findById e db (jwt_id decoded) = Inr (Some u) \<and> u_isActive u
        \<and> req' = req\<lparr>req_user := Some (select_minus_password u)\<rparr>"
  by (auto simp: protect_def split: option.splits sum.splits if_splits)

text \<open>What the handlers compute from the store does not depend on the passwords in it.\<close>

lemma truncate_fields [simp]:
  "u_id (user_public.truncate u) = u_id u"
  "u_name (user_public.truncate u) = u_name u"
  "u_email (user_public.truncate u) = u_email u"
  "u_role (user_public.truncate u) = u_role u"
  "u_isActive (user_public.truncate u) = u_isActive u"
  by (simp_all add: user_public.truncate_def)

lemma truncate_touch:
  "user_public.truncate u = user_public.truncate v \<Longrightarrow>
     user_public.truncate (u\<lparr>u_lastLogin := l, u_updatedAt := t\<rparr>)
       = user_public.truncate (v\<lparr>u_lastLogin := l, u_updatedAt := t\<rparr>)"
  by (simp add: user_public.truncate_def)

lemma find_user_public:
  "map user_public.truncate us = map user_public.truncate vs \<Longrightarrow>
     map_option user_public.truncate (find_user (\<lambda>u. Q (user_public.truncate u)) us)
       = map_option user_public.truncate (find_user (\<lambda>u. Q (user_public.truncate u)) vs)"
proof (induction us arbitrary: vs)
  case Nil
  then show ?case by simp
next
  case (Cons u us)
  then obtain v vs' where vs: "vs = v # vs'" by (cases vs) auto
  with Cons.prems have "user_public.truncate u = user_public.truncate v"
    and "map user_public.truncate us = map user_public.truncate vs'"
    by simp_all
  with Cons.IH [of vs'] vs show ?case by simp
qed

lemma find_user_public_cases:
  assumes "map user_public.truncate us = map user_public.truncate vs"
  shows "(find_user (\<lambda>u. Q (user_public.truncate u)) us = None
            \<and> find_user (\<lambda>u. Q (user_public.truncate u)) vs = None)
         \<or> (\<exists>u v. find_user (\<lambda>u. Q (user_public.truncate u)) us = Some u
                \<and> find_user (\<lambda>u. Q (user_public.truncate u)) vs = Some v
                \<and> user_public.truncate u = user_public.truncate v)"
  using find_user_public [OF assms, of Q]
  by (cases "find_user (\<lambda>u. Q (user_public.truncate u)) us";
      cases "find_user (\<lambda>u. Q (user_public.truncate u)) vs") auto

lemma find_by_id_public:
  assumes "same_public db db'"
  shows "(find_user (\<lambda>u. u_id u = k) (users db) = None
            \<and> find_user (\<lambda>u. u_id u = k) (users db') = None)
         \<or> (\<exists>u v. find_user (\<lambda>u. u_id u = k) (users db) = Some u
                \<and> find_user (\<lambda>u. u_id u = k) (users db') = Some v
                \<and> user_public.truncate u = user_public.truncate v)"
  using find_user_public_cases [of "users db" "users db'" "\<lambda>p. u_id p = k"] assms
  by (simp add: same_public_def)

lemma findByEmail_public:
  assumes "same_public db db'"
  shows "(findByEmail db m = None \<and> findByEmail db' m = None)
         \<or> (\<exists>u v. findByEmail db m = Some u \<and> findByEmail db' m = Some v
                \<and> user_public.truncate u = user_public.truncate v)"
  using find_user_public_cases
      [of "users db" "users db'" "\<lambda>p. u_email p = email_setters (toLowerCase m)"] assms
  by (simp add: same_public_def findByEmail_def)

lemma same_fields:
  assumes "user_public.truncate u = user_public.truncate v"
  shows "u_id u = u_id v" "u_name u = u_name v" "u_email u = u_email v" "u_role u = u_role v"
    "u_isActive u = u_isActive v"
  using assms truncate_fields [of u] truncate_fields [of v] by simp_all

lemma User_findById_public:
  assumes "same_public db db'"
  shows "map_sum id (map_option user_public.truncate) (User_findById e db i)
           = map_sum id (map_option user_public.truncate) (User_findById e db' i)"
proof (cases "castObjectId e i")
  case None
  then show ?thesis by (simp add: User_findById_def)
next
  case (Some k)
  with find_by_id_public [OF assms, of k] show ?thesis
    by (auto simp: User_findById_def)
qed

lemma protect_public:
  assumes "same_public db db'"
  shows "protect e db req = protect e db' req"
proof -
  have "(case User_findById e db i of
           Inl thrown \<Rightarrow> Inl not_authorized
         | Inr None \<Rightarrow> Inl (AppError ''User no longer exists'' 401)
         | Inr (Some u) \<Rightarrow>
             if \<not> u_isActive u then Inl (AppError ''User account is inactive'' 401)
             else Inr (req\<lparr>req_user := Some (select_minus_password u)\<rparr>))
        = (case User_findById e db' i of
           Inl thrown \<Rightarrow> Inl not_authorized
         | Inr None \<Rightarrow> Inl (AppError ''User no longer exists'' 401)
         | Inr (Some u) \<Rightarrow>
             if \<not> u_isActive u then Inl (AppError ''User account is inactive'' 401)
             else Inr (req\<lparr>req_user := Some (select_minus_password u)\<rparr>))" for i
    using User_findById_public [OF assms, of e i]
    by (auto simp: select_minus_password_def split: sum.splits option.splits dest: same_fields)
  note inner = this
  show ?thesis
  proof (cases "token_of req")
    case None
    then show ?thesis by (simp add: protect_def)
  next
    case (Some token)
    show ?thesis
    proof (cases "jwt_verify e token")
      case (Inl thrown)
      with Some show ?thesis by (simp add: protect_def)
    next
      case (Inr decoded)
      with Some inner [of "jwt_id decoded"] show ?thesis by (simp add: protect_def)
    qed
  qed
qed

lemma getMe_public:
  assumes "same_public db db'"
  shows "snd (getMe e db req) = snd (getMe e db' req)"
proof (cases "req_user req")
  case None
  then show ?thesis by (simp add: getMe_def)
next
  case (Some me)
  with User_findById_public [OF assms, of e "u_id me"] show ?thesis
    by (auto simp: getMe_def select_minus_password_def split: sum.splits option.splits)
qed

lemma exists_public:
  assumes "map user_public.truncate us = map user_public.truncate vs"
  shows "(\<exists>x \<in> set us. Q (user_public.truncate x)) = (\<exists>x \<in> set vs. Q (user_public.truncate x))"
proof -
  have "(\<exists>x \<in> set us. Q (user_public.truncate x)) = (\<exists>y \<in> set (map user_public.truncate us). Q y)"
    by auto
  also have "\<dots> = (\<exists>y \<in> set (map user_public.truncate vs). Q y)" by (simp only: assms)
  also have "\<dots> = (\<exists>x \<in> set vs. Q (user_public.truncate x))" by auto
  finally show ?thesis .
qed

lemma User_create_public:
  assumes "same_public db db'"
  shows "map_sum id snd (User_create e db b) = map_sum id snd (User_create e db' b)"
proof -
  from assms have m: "map user_public.truncate (users db) = map user_public.truncate (users db')"
    by (simp add: same_public_def)
  have "(\<exists>x \<in> set (users db). u_id x = k) = (\<exists>x \<in> set (users db'). u_id x = k)" for k
    using exists_public [OF m, of "\<lambda>p. u_id p = k"] by simp
  moreover have "(\<exists>x \<in> set (users db). u_email x = k) = (\<exists>x \<in> set (users db'). u_email x = k)" for k
    using exists_public [OF m, of "\<lambda>p. u_email p = k"] by simp
  ultimately show ?thesis
    by (simp add: User_create_def Let_def)
qed

lemma register_public:
  assumes "same_public db db'"
  shows "snd (register e db req) = snd (register e db' req)"
proof (cases "b_email (body req)")
  case None
  then show ?thesis by (simp add: register_def)
next
  case (Some email)
  from findByEmail_public [OF assms, of email] show ?thesis
  proof (elim disjE conjE exE)
    assume "findByEmail db email = None" and "findByEmail db' email = None"
    with Some User_create_public [OF assms, of e "body req"] show ?thesis
      by (auto simp: register_def Let_def split: sum.splits)
  next
    fix u v
    assume "findByEmail db email = Some u" and "findByEmail db' email = Some v"
    with Some show ?thesis by (simp add: register_def)
  qed
qed

lemma email_errors_any_hash:
  "email_errors (e\<lparr>bcrypt_genSalt := salt, bcrypt_hash := h\<rparr>) m = email_errors e m"
  by (simp add: email_errors_def split: option.splits)

lemma register_any_hash:
  "snd (register (e\<lparr>bcrypt_genSalt := salt, bcrypt_hash := h\<rparr>) db req) = snd (register e db req)"
proof -
  let ?e = "e\<lparr>bcrypt_genSalt := salt, bcrypt_hash := h\<rparr>"
  have "map_sum id (user_public.truncate \<circ> snd) (User_create ?e db b)
          = map_sum id (user_public.truncate \<circ> snd) (User_create e db b)" for b
    by (simp add: User_create_def Let_def email_errors_any_hash user_public.truncate_def)
  then have eq: "map_sum id (user_public.truncate \<circ> snd) (User_create ?e db (body req))
          = map_sum id (user_public.truncate \<circ> snd) (User_create e db (body req))" .
  show ?thesis
  proof (cases "User_create e db (body req)")
    case (Inl thrown)
    with eq have "User_create ?e db (body req) = Inl thrown"
      by (cases "User_create ?e db (body req)") simp_all
    with Inl show ?thesis
      by (simp add: register_def split: option.splits)
  next
    case (Inr created)
    obtain d u where created: "created = (d, u)" by (cases created)
    from eq Inr created obtain d' u' where other: "User_create ?e db (body req) = Inr (d', u')"
      and "user_public.truncate u' = user_public.truncate u"
      by (cases "User_create ?e db (body req)") auto
    note same_fields [OF this(2)]
    with Inr created other show ?thesis
      by (simp add: register_def Let_def auth_json_def generateToken_def token_cookie_def
          split: option.splits)
  qed
qed

lemma login_public:
  assumes "same_public db db'"
    and "password_matches e db (body req) = password_matches e db' (body req)"
  shows "snd (login e db req) = snd (login e db' req)"
proof (cases "b_email (body req)")
  case None
  then show ?thesis by (simp add: login_def)
next
  case email: (Some email)
  show ?thesis
  proof (cases "b_password (body req)")
    case None
    with email show ?thesis by (simp add: login_def)
  next
    case password: (Some password)
    from findByEmail_public [OF assms(1), of email] show ?thesis
    proof (elim disjE conjE exE)
      assume "findByEmail db email = None" and "findByEmail db' email = None"
      with email password show ?thesis by (simp add: login_def)
    next
      fix u v
      assume u: "findByEmail db email = Some u" and v: "findByEmail db' email = Some v"
        and same: "user_public.truncate u = user_public.truncate v"
      from assms(2) email password u v
      have "bcrypt_compare e password (u_password u) = bcrypt_compare e password (u_password v)"
        by (simp add: password_matches_def)
      with email password u v same_fields [OF same] show ?thesis
        by (simp add: login_def Let_def auth_json_def generateToken_def)
    qed
  qed
qed

text \<open>
  C4. When every stored password is a bcrypt hash, it is so again after \<open>register\<close> and
  after \<open>login\<close>. The JSON bodies that \<open>register\<close>, \<open>login\<close> and \<open>getMe\<close> send have
  no \<open>password\<close> key at any depth, and when \<open>protect\<close> passes a request on, the user it
  attached is the stored, active account that the token names, cut down to its public
  fields. No answer carries a stored password under any name: for two stores that differ
  only in the passwords they hold, \<open>protect\<close> gives the same verdict and the same
  request context, and \<open>register\<close>, \<open>getMe\<close> and \<open>login\<close> give the same answer, error
  answers included (for \<open>login\<close>, when \<open>bcrypt.compare\<close> gives the same verdict on the
  password of the request in both); and the answer of \<open>register\<close> is the same whatever
  hash bcrypt computes for the new account.
\<close>

theorem password_hashed_and_never_returned:
  "all_hashed e db \<Longrightarrow>
     all_hashed e (fst (register e db areq)) \<and> all_hashed e (fst (login e db areq))
     \<and> (\<forall>db' r. register e db areq = (db', Inr r) \<longrightarrow> \<not> has_key ''password'' (json_body r))
     \<and> (\<forall>db' r. login e db areq = (db', Inr r) \<longrightarrow> \<not> has_key ''password'' (json_body r))
     \<and> (\<forall>db' r. getMe e db req = (db', Inr r) \<longrightarrow> db' = db \<and> \<not> has_key ''password'' (json_body r))
     \<and> (\<forall>req'. protect e db req = Inr req' \<longrightarrow>
           (\<exists>t decoded u. token_of req = Some t \<and> jwt_verify e t = Inr decoded
              \<and> User_findById e db (jwt_id decoded) = Inr (Some u) \<and> u_isActive u
              \<and> req' = req\<lparr>req_user := Some (user_public.truncate u)\<rparr>
              \<and> \<not> has_key ''password'' (toJSON (user_public.truncate u) None)))
     \<and> (\<forall>db'. same_public db db' \<longrightarrow>
           protect e db req = protect e db' req
           \<and> snd (getMe e db req) = snd (getMe e db' req)
           \<and> snd (register e db areq) = snd (register e db' areq)
           \<and> (password_matches e db (body areq) = password_matches e db' (body areq) \<longrightarrow>
                snd (login e db areq) = snd (login e db' areq)))
     \<and> (\<forall>salt h. snd (register (e\<lparr>bcrypt_genSalt := salt, bcrypt_hash := h\<rparr>) db areq)
                    = snd (register e db areq))"
proof -
  assume inv: "all_hashed e db"
  have resolver: "\<exists>t decoded u. token_of req = Some t \<and> jwt_verify e t = Inr decoded
              \<and> User_findById e db (jwt_id decoded) = Inr (Some u) \<and> u_isActive u
              \<and> req' = req\<lparr>req_user := Some (user_public.truncate u)\<rparr>
              \<and> \<not> has_key ''password'' (toJSON (user_public.truncate u) None)"
    if "protect e db req = Inr req'" for req'
    using protect_resolves [OF that] toJSON_no_password
    by (simp add: select_minus_password_def)
  have blind: "protect e db req = protect e db' req
           \<and> snd (getMe e db req) = snd (getMe e db' req)
           \<and> snd (register e db areq) = snd (register e db' areq)
           \<and> (password_matches e db (body areq) = password_matches e db' (body areq) \<longrightarrow>
                snd (login e db areq) = snd (login e db' areq))"
    if "same_public db db'" for db'
    using protect_public [OF that] getMe_public [OF that] register_public [OF that]
      login_public [OF that]
    by blast
  from inv resolver blind show ?thesis
    using register_hashed [of e db areq] login_hashed [of e db areq]
      register_response_no_password [of e db areq] login_response_no_password [of e db areq]
      getMe_response_no_password [of e db req] register_any_hash [where e = e and db = db and req = areq]
    by blast
qed

lemma sample_db_hashed: "all_hashed sample_env sample_db"
proof -
  have "hashed sample_env (u_password alice)"
    unfolding hashed_def by (rule exI [of _ "''Password''"], rule exI [of _ "''$2a$12$''"])
      (simp add: sample_env_def alice_def)
  moreover have "hashed sample_env (u_password bob)"
    unfolding hashed_def by (rule exI [of _ "''Admin123''"], rule exI [of _ "''$2a$12$''"])
      (simp add: sample_env_def bob_def)
  moreover have "hashed sample_env (u_password carol)"
    unfolding hashed_def by (rule exI [of _ "''Secret1''"], rule exI [of _ "''$2a$12$''"])
      (simp add: sample_env_def carol_def)
  ultimately show ?thesis by (simp add: all_hashed_def sample_db_def)
qed

lemma protect_alice:
  "protect sample_env sample_db (bearer ''tok.alice'' ())
     = Inr ((bearer ''tok.alice'' ())\<lparr>req_user := Some (user_public.truncate alice)\<rparr>)"
  by (simp add: auth_defs sample_defs)

lemma rehashed_same_public: "same_public sample_db rehashed_db"
  by (simp add: same_public_def sample_db_def rehashed_db_def user_public.truncate_def)

text \<open>
  John registers: his password is stored hashed and his answer has no password key. In
  a store where Alice's password has another hash, her token resolves to the same
  context and a login with a wrong password gets the same answer.
\<close>

theorem password_hashed_and_never_returned_witness:
  "all_hashed sample_env sample_db
   \<and> all_hashed sample_env (fst (register sample_env sample_db (anonymous john)))
   \<and> u_password (last (users (fst (register sample_env sample_db (anonymous john)))))
       = ''$2a$12$321drowssaP''
   \<and> \<not> has_key ''password'' (json_body (projr (snd (register sample_env sample_db (anonymous john)))))
   \<and> protect sample_env sample_db (bearer ''tok.alice'' ())
       = Inr ((bearer ''tok.alice'' ())\<lparr>req_user := Some (user_public.truncate alice)\<rparr>)
   \<and> same_public sample_db rehashed_db \<and> rehashed_db \<noteq> sample_db
   \<and> protect sample_env rehashed_db (bearer ''tok.alice'' ())
       = Inr ((bearer ''tok.alice'' ())\<lparr>req_user := Some (user_public.truncate alice)\<rparr>)
   \<and> snd (login sample_env rehashed_db (anonymous (credentials ''alice@example.com'' ''wrong'')))
       = snd (login sample_env sample_db (anonymous (credentials ''alice@example.com'' ''wrong'')))"
proof -
  let ?wrong = "anonymous (credentials ''alice@example.com'' ''wrong'')"
  have stored: "u_password (last (users (fst (register sample_env sample_db (anonymous john)))))
       = ''$2a$12$321drowssaP''"
    unfolding register_john by simp
  have "\<exists>db' r. register sample_env sample_db (anonymous john) = (db', Inr r)"
    unfolding register_john by blast
  then obtain db' r where reg: "register sample_env sample_db (anonymous john) = (db', Inr r)"
    by blast
  have "\<not> has_key ''password'' (json_body r)"
    using password_hashed_and_never_returned [OF sample_db_hashed, of "anonymous john"] reg
    by blast
  with reg have body: "\<not> has_key ''password''
      (json_body (projr (snd (register sample_env sample_db (anonymous john)))))"
    by simp
  have hashed: "all_hashed sample_env (fst (register sample_env sample_db (anonymous john)))"
    using password_hashed_and_never_returned [OF sample_db_hashed, of "anonymous john"]
    by blast
  have differ: "rehashed_db \<noteq> sample_db"
    by (simp add: rehashed_db_def sample_db_def alice_def)
  have same_match: "password_matches sample_env sample_db (body ?wrong)
                      = password_matches sample_env rehashed_db (body ?wrong)"
    by (simp add: password_matches_def findByEmail_def rehashed_db_def credentials_def sample_defs)
  note blind = password_hashed_and_never_returned
      [OF sample_db_hashed, where req = "bearer ''tok.alice'' ()" and areq = ?wrong]
  from blind rehashed_same_public
  have p: "protect sample_env sample_db (bearer ''tok.alice'' ())
             = protect sample_env rehashed_db (bearer ''tok.alice'' ())"
    by blast
  from blind rehashed_same_public same_match
  have l: "snd (login sample_env sample_db ?wrong) = snd (login sample_env rehashed_db ?wrong)"
    by blast
  from sample_db_hashed hashed stored body protect_alice rehashed_same_public differ p l
  show ?thesis by simp
qed

section \<open>Logout\<close>

lemma logout_once: "logout e db req = (db, Inr (logged_out e))"
  by (simp add: logout_def logged_out_def)

lemma logout_repeated:
  "((\<lambda>s. logout e (fst s) req) ^^ Suc n) (db, r :: error + response) = (db, Inr (logged_out e))"
  by (induction n) (simp_all add: logout_once)

text \<open>
  C8. \<open>logout\<close> answers every call with status 200, the success message and the cookie
  \<open>token\<close> overwritten by the placeholder "none" that expires ten seconds after the
  call; any number of calls in succession gives what one call gives; the store is
  unchanged, and \<open>protect\<close> accepts afterwards exactly the tokens it accepted before.
\<close>

theorem logout_idempotent:
  "logout e db req = (db, Inr (logged_out e))
   \<and> ((\<lambda>s. logout e (fst s) req) ^^ Suc n) (db, r :: error + response) = logout e db req
   \<and> protect e (fst (logout e db req)) req' = protect e db req'"
  by (subst logout_repeated) (simp add: logout_once)

theorem logout_idempotent_witness:
  "logout sample_env sample_db (bearer ''tok.alice'' ()) = (sample_db, Inr (logged_out sample_env))
   \<and> ((\<lambda>s. logout sample_env (fst s) (bearer ''tok.alice'' ())) ^^ Suc 2)
         ((sample_db, Inl not_authorized) :: store \<times> (error + response))
       = (sample_db, Inr (logged_out sample_env))
   \<and> map c_expires (set_cookies (logged_out sample_env)) = [1700000010000]
   \<and> protect sample_env (fst (logout sample_env sample_db (bearer ''tok.alice'' ())))
         (bearer ''tok.alice'' ())
       = Inr ((bearer ''tok.alice'' ())\<lparr>req_user := Some (user_public.truncate alice)\<rparr>)"
proof -
  note main = logout_idempotent [of sample_env sample_db "bearer ''tok.alice'' ()" 2
      "Inl not_authorized :: error + response" "bearer ''tok.alice'' ()"]
  from main have once: "logout sample_env sample_db (bearer ''tok.alice'' ())
                          = (sample_db, Inr (logged_out sample_env))"
    by (rule conjunct1)
  from main have "((\<lambda>s. logout sample_env (fst s) (bearer ''tok.alice'' ())) ^^ Suc 2)
                     ((sample_db, Inl not_authorized) :: store \<times> (error + response))
                   = logout sample_env sample_db (bearer ''tok.alice'' ())"
    by (rule conjunct1 [OF conjunct2])
  then have thrice: "((\<lambda>s. logout sample_env (fst s) (bearer ''tok.alice'' ())) ^^ Suc 2)
                        ((sample_db, Inl not_authorized) :: store \<times> (error + response))
                      = (sample_db, Inr (logged_out sample_env))"
    using once by (rule trans)
  from main have "protect sample_env (fst (logout sample_env sample_db (bearer ''tok.alice'' ())))
                    (bearer ''tok.alice'' ())
                  = protect sample_env sample_db (bearer ''tok.alice'' ())"
    by (rule conjunct2 [OF conjunct2])
  then have still: "protect sample_env (fst (logout sample_env sample_db (bearer ''tok.alice'' ())))
                      (bearer ''tok.alice'' ())
                    = Inr ((bearer ''tok.alice'' ())\<lparr>req_user := Some (user_public.truncate alice)\<rparr>)"
    using protect_alice by (rule trans)
  have expires: "map c_expires (set_cookies (logged_out sample_env)) = [1700000010000]"
    by (simp add: logged_out_def sample_env_def)
  from once thrice expires still show ?thesis
    by (intro conjI)
qed

section \<open>Products\<close>



lemma assign_body_id [simp]: "p_id (assign_body p b) = p_id p"
  by (simp add: assign_body_def)


lemma updateProduct_ignores_user [simp]:
  "updateProduct e db (req\<lparr>req_user := a\<rparr>) = updateProduct e db req"
  by (simp add: updateProduct_def split: sum.splits option.splits)

lemma deleteProduct_ignores_user [simp]:
  "deleteProduct e db (req\<lparr>req_user := a\<rparr>) = deleteProduct e db req"
  by (simp add: deleteProduct_def split: sum.splits option.splits)




end
